theory Spec2Isabelle
  imports Complex_Main
begin

section \<open>The JavaScript host: numbers, strings and dates\<close>

text \<open>
  The program is JavaScript running in a browser. Its own code is the two services
  \<open>StorageService\<close> (storage.js) and \<open>MembersService\<close>; everything else it calls
  (\<open>parseInt\<close>, \<open>Number.prototype.toString\<close>, \<open>Date\<close>) is part of the host and is
  modelled here after ECMA-262.

  Numbers. The program only ever computes with integers (a counter, millisecond time
  values, day counts). A JavaScript number is a double: every integer of magnitude up
  to \<open>2^53\<close> is one, beyond that only every second, fourth, ... integer is. \<open>Num i\<close> is
  the double with the integer value \<open>i\<close>; \<open>toNumber\<close> rounds an integer to the nearest
  double, a tie to the one with the even significand, and to an infinity from
  \<open>2^1024 - 2^970\<close> on. Minus zero, which prints as \<open>0\<close>, is not told apart from zero.
\<close>

datatype number = NaN | Num int | Infinity | NegInfinity

function bitLength :: "int \<Rightarrow> nat" where
  "bitLength a = (if a \<le> 0 then 0 else Suc (bitLength (a div 2)))"
  by pat_completeness auto
termination
  by (relation "measure nat") auto

declare bitLength.simps [simp del]

definition toNumber :: "int \<Rightarrow> number" where
  "toNumber v =
     (let a = \<bar>v\<bar> in
      if a < 9007199254740992 then Num v
      else
        (let q = 2 ^ (bitLength a - 53);
             m = a div q;
             r = a mod q;
             m = (if 2 * r < q then m else if q < 2 * r then m + 1
                  else if even m then m else m + 1);
             w = m * q
         in if 2 ^ 1024 \<le> w then (if v < 0 then NegInfinity else Infinity)
            else Num (if v < 0 then - w else w)))"

text \<open>The postfix increment \<open>counter++\<close> adds one and rounds: at \<open>2^53\<close> the sum rounds
  back, so the counter stays. \<open>NaN\<close> and the infinities stay as they are.\<close>

definition increment :: "number \<Rightarrow> number" where
  "increment x =
     (case x of
        NaN \<Rightarrow> NaN
      | Num i \<Rightarrow> toNumber (i + 1)
      | Infinity \<Rightarrow> Infinity
      | NegInfinity \<Rightarrow> NegInfinity)"

subsection \<open>Number.prototype.toString and parseInt\<close>

definition digitChar :: "nat \<Rightarrow> char" where
  "digitChar d = char_of (48 + d)"

text \<open>The decimal digits of an integer that is not negative.\<close>

function decimalString :: "int \<Rightarrow> string" where
  "decimalString n =
     (if n < 10 then [digitChar (nat n)]
      else decimalString (n div 10) @ [digitChar (nat (n mod 10))])"
  by pat_completeness auto
termination
  by (relation "measure nat") auto

declare decimalString.simps [simp del]

text \<open>
  \<open>Number::toString\<close> (ECMA-262, 6.1.6.1.20) prints a decimal number with the fewest
  significant digits that still rounds to the double. Where several have that many
  digits the closest one is taken, an even last digit on a tie, as ECMA-262 recommends
  and the browsers do. \<open>shortestDecimal\<close> looks for it with 1, 2, ... up to 17 digits
  among the two neighbours of the double at that precision.
\<close>

definition shortestDecimal :: "int \<Rightarrow> int" where
  "shortestDecimal a =
     (let n = length (decimalString a);
          valid = (\<lambda>c. toNumber c = Num a);
          lower = (\<lambda>k. (a div 10 ^ (n - k)) * 10 ^ (n - k));
          upper = (\<lambda>k. lower k + 10 ^ (n - k))
      in case find (\<lambda>k. valid (lower k) \<or> valid (upper k)) [1..<18] of
           None \<Rightarrow> a
         | Some k \<Rightarrow>
             (let p = 10 ^ (n - k); r = a mod p
              in if valid (lower k) \<and> valid (upper k)
                 then (if 2 * r < p then lower k else if p < 2 * r then upper k
                       else if even (a div p) then lower k else upper k)
                 else if valid (lower k) then lower k else upper k))"

definition stripZeros :: "string \<Rightarrow> string" where
  "stripZeros ds = rev (dropWhile (\<lambda>c. c = CHR ''0'') (rev ds))"

text \<open>The exponent notation, as in \<open>1.1805916207174113e+21\<close>.\<close>

definition exponentString :: "int \<Rightarrow> string" where
  "exponentString c =
     (let n = length (decimalString c);
          ds = stripZeros (decimalString c)
      in (if length ds = 1 then ds else hd ds # CHR ''.'' # tl ds)
           @ ''e+'' @ decimalString (int n - 1))"

text \<open>\<open>x.toString()\<close> on an integer-valued number. Below \<open>2^53\<close> the shortest decimal is
  the integer itself, and its digits are printed. From there on the shortest decimal is
  printed, with its zeros below \<open>10^21\<close> and in exponent notation above.\<close>

definition toString :: "number \<Rightarrow> string" where
  "toString x =
     (case x of
        NaN \<Rightarrow> ''NaN''
      | Infinity \<Rightarrow> ''Infinity''
      | NegInfinity \<Rightarrow> ''-Infinity''
      | Num i \<Rightarrow>
          (let a = \<bar>i\<bar>;
               s = (if a < 9007199254740992 then decimalString a
                    else (let c = shortestDecimal a
                          in if c < 1000000000000000000000 then decimalString c
                             else exponentString c))
           in if i < 0 then CHR ''-'' # s else s))"

text \<open>The white space \<open>parseInt\<close> skips, as far as a byte string has it: TAB, LF, VT, FF,
  CR and the space.\<close>

definition isWhiteSpace :: "char \<Rightarrow> bool" where
  "isWhiteSpace c = (c \<in> set [CHR 0x09, CHR 0x0A, CHR 0x0B, CHR 0x0C, CHR 0x0D, CHR 0x20])"

text \<open>The value of a digit in a radix up to 36: \<open>0\<close>-\<open>9\<close>, then the letters in either
  case. Any other character has no value (36 here, beyond every radix).\<close>

definition digitValue :: "char \<Rightarrow> nat" where
  "digitValue c =
     (let k = of_char c :: nat in
      if 48 \<le> k \<and> k \<le> 57 then k - 48
      else if 97 \<le> k \<and> k \<le> 122 then k - 87
      else if 65 \<le> k \<and> k \<le> 90 then k - 55
      else 36)"

definition isRadixDigit :: "nat \<Rightarrow> char \<Rightarrow> bool" where
  "isRadixDigit R c = (digitValue c < R)"

definition digitsValue :: "nat \<Rightarrow> string \<Rightarrow> int" where
  "digitsValue R ds = foldl (\<lambda>acc c. acc * int R + int (digitValue c)) 0 ds"

text \<open>
  \<open>parseInt(string)\<close> without a radix (ECMA-262, 19.2.5): skip leading white space, read
  a sign, switch to radix 16 after \<open>0x\<close> or \<open>0X\<close>, take the longest prefix of digits;
  \<open>NaN\<close> when that prefix is empty, else the double nearest to the integer read.
  (ECMA-262 lets a host round a decimal of more than 20 digits less exactly; the model
  rounds it exactly, as the browsers do.)
\<close>

definition parseInt :: "string \<Rightarrow> number" where
  "parseInt inputString =
     (let S = dropWhile isWhiteSpace inputString;
          sign = (if S \<noteq> [] \<and> hd S = CHR ''-'' then - 1 else 1 :: int);
          S = (if S \<noteq> [] \<and> (hd S = CHR ''+'' \<or> hd S = CHR ''-'') then tl S else S);
          hex = (take 2 S = ''0x'' \<or> take 2 S = ''0X'');
          R = (if hex then 16 else 10);
          S = (if hex then drop 2 S else S);
          Z = takeWhile (isRadixDigit R) S
      in if Z = [] then NaN else toNumber (sign * digitsValue R Z))"

subsection \<open>Time values and the calendar (ECMA-262, 21.4.1)\<close>

text \<open>
  A \<open>Date\<close> holds a time value: milliseconds since the epoch, UTC. The program stores a
  date as the string \<open>toISOString()\<close> gives and reads it back with \<open>new Date(string)\<close>,
  which returns the same time value; the model keeps the time value itself. All dates
  of the program come from the clock, so they are valid; the range limit of
  \<open>TimeClip\<close> is not modelled.
\<close>

type_synonym time = int

definition msPerDay :: int where
  "msPerDay = 86400000"

definition msPerHour :: int where
  "msPerHour = 3600000"

definition msPerMinute :: int where
  "msPerMinute = 60000"

definition msPerSecond :: int where
  "msPerSecond = 1000"

definition Day :: "time \<Rightarrow> int" where
  "Day t = t div msPerDay"

definition TimeWithinDay :: "time \<Rightarrow> int" where
  "TimeWithinDay t = t mod msPerDay"

definition DaysInYear :: "int \<Rightarrow> int" where
  "DaysInYear y =
     (if y mod 4 \<noteq> 0 then 365
      else if y mod 100 \<noteq> 0 then 366
      else if y mod 400 \<noteq> 0 then 365
      else 366)"

definition DayFromYear :: "int \<Rightarrow> int" where
  "DayFromYear y =
     365 * (y - 1970) + (y - 1969) div 4 - (y - 1901) div 100 + (y - 1601) div 400"

definition TimeFromYear :: "int \<Rightarrow> time" where
  "TimeFromYear y = msPerDay * DayFromYear y"

text \<open>
  \<open>YearFromTime(t)\<close> is the largest \<open>y\<close> with \<open>TimeFromYear(y) \<le> t\<close>. Computed from an
  estimate that is off by at most one year; \<open>YearFromTime_largest\<close> below proves that the
  result is that largest year.
\<close>

definition YearFromTime :: "time \<Rightarrow> int" where
  "YearFromTime t =
     (let d = Day t; y = 1970 + (400 * d) div 146097
      in if DayFromYear (y + 1) \<le> d then y + 1
         else if DayFromYear y \<le> d then y
         else y - 1)"

definition InLeapYear :: "time \<Rightarrow> int" where
  "InLeapYear t = (if DaysInYear (YearFromTime t) = 365 then 0 else 1)"

definition DayWithinYear :: "time \<Rightarrow> int" where
  "DayWithinYear t = Day t - DayFromYear (YearFromTime t)"

definition MonthFromTime :: "time \<Rightarrow> int" where
  "MonthFromTime t =
     (let d = DayWithinYear t; L = InLeapYear t
      in if d < 31 then 0
         else if d < 59 + L then 1
         else if d < 90 + L then 2
         else if d < 120 + L then 3
         else if d < 151 + L then 4
         else if d < 181 + L then 5
         else if d < 212 + L then 6
         else if d < 243 + L then 7
         else if d < 273 + L then 8
         else if d < 304 + L then 9
         else if d < 334 + L then 10
         else 11)"

definition DateFromTime :: "time \<Rightarrow> int" where
  "DateFromTime t =
     (let d = DayWithinYear t; L = InLeapYear t; m = MonthFromTime t
      in if m = 0 then d + 1
         else if m = 1 then d - 30
         else if m = 2 then d - 58 - L
         else if m = 3 then d - 89 - L
         else if m = 4 then d - 119 - L
         else if m = 5 then d - 150 - L
         else if m = 6 then d - 180 - L
         else if m = 7 then d - 211 - L
         else if m = 8 then d - 242 - L
         else if m = 9 then d - 272 - L
         else if m = 10 then d - 303 - L
         else d - 333 - L)"

definition WeekDay :: "time \<Rightarrow> int" where
  "WeekDay t = (Day t + 4) mod 7"

text \<open>
  \<open>MakeDay(year, month, date)\<close>: the day number of the first of the month, plus
  \<open>date - 1\<close>. ECMA-262 asks for a time \<open>t\<close> in that year and month with
  \<open>DateFromTime(t) = 1\<close>; \<open>firstOfMonth\<close> computes its day number, and
  \<open>firstOfMonth_spec\<close> below proves that every time of that day is such a \<open>t\<close>.
\<close>

definition daysBeforeMonth :: "int \<Rightarrow> int \<Rightarrow> int" where
  "daysBeforeMonth mn L =
     (if mn = 0 then 0
      else if mn = 1 then 31
      else if mn = 2 then 59 + L
      else if mn = 3 then 90 + L
      else if mn = 4 then 120 + L
      else if mn = 5 then 151 + L
      else if mn = 6 then 181 + L
      else if mn = 7 then 212 + L
      else if mn = 8 then 243 + L
      else if mn = 9 then 273 + L
      else if mn = 10 then 304 + L
      else 334 + L)"

definition firstOfMonth :: "int \<Rightarrow> int \<Rightarrow> int" where
  "firstOfMonth ym mn =
     DayFromYear ym + daysBeforeMonth mn (if DaysInYear ym = 365 then 0 else 1)"

definition MakeDay :: "int \<Rightarrow> int \<Rightarrow> int \<Rightarrow> int" where
  "MakeDay year month date' =
     (let ym = year + month div 12; mn = month mod 12
      in firstOfMonth ym mn + date' - 1)"

definition MakeTime :: "int \<Rightarrow> int \<Rightarrow> int \<Rightarrow> int \<Rightarrow> int" where
  "MakeTime hour minute sec ms = hour * msPerHour + minute * msPerMinute + sec * msPerSecond + ms"

definition MakeDate :: "int \<Rightarrow> int \<Rightarrow> time" where
  "MakeDate day time' = day * msPerDay + time'"

subsection \<open>Local time\<close>

text \<open>
  The host decides the time zone and the locale. \<open>LocalTZA host t isUTC\<close> is the
  offset of local time from UTC in milliseconds, asked either at a UTC time value
  (\<open>isUTC\<close>) or at a local one, as in ECMA-262; daylight saving makes it depend on
  \<open>t\<close>. \<open>localeDate\<close> is the host's \<open>toLocaleDateString\<close>.
\<close>

record host =
  LocalTZA :: "time \<Rightarrow> bool \<Rightarrow> int"
  localeDate :: "time \<Rightarrow> string"

definition LocalTime :: "'a host_scheme \<Rightarrow> time \<Rightarrow> time" where
  "LocalTime h t = t + LocalTZA h t True"

definition UTC :: "'a host_scheme \<Rightarrow> time \<Rightarrow> time" where
  "UTC h t = t - LocalTZA h t False"

text \<open>\<open>Date.prototype.getDate\<close>, \<open>setDate\<close>, \<open>setHours\<close> and \<open>toDateString\<close>. The setters
  return the new time value of the date object. \<open>toDateString\<close> prints the week day,
  the month, the day of the month and the year of local time; the model keeps these four
  numbers, which the printed string determines and is determined by.\<close>

definition getDate :: "'a host_scheme \<Rightarrow> time \<Rightarrow> int" where
  "getDate h d = DateFromTime (LocalTime h d)"

definition setDate :: "'a host_scheme \<Rightarrow> time \<Rightarrow> int \<Rightarrow> time" where
  "setDate h d dt =
     (let t = LocalTime h d;
          newDate = MakeDate (MakeDay (YearFromTime t) (MonthFromTime t) dt) (TimeWithinDay t)
      in UTC h newDate)"

definition setHours :: "'a host_scheme \<Rightarrow> time \<Rightarrow> int \<Rightarrow> int \<Rightarrow> int \<Rightarrow> int \<Rightarrow> time" where
  "setHours h d hour minute sec ms =
     (let t = LocalTime h d;
          date' = MakeDate (Day t) (MakeTime hour minute sec ms)
      in UTC h date')"

definition toDateString :: "'a host_scheme \<Rightarrow> time \<Rightarrow> int \<times> int \<times> int \<times> int" where
  "toDateString h d =
     (let t = LocalTime h d in (WeekDay t, MonthFromTime t, DateFromTime t, YearFromTime t))"


section \<open>The data model\<close>

text \<open>
  A member is a JavaScript object with the fields below; the record's extension part
  stands for any further field a caller supplies. A field that may be missing or
  \<open>null\<close> is an option, \<open>None\<close> for both: the program only tests such a field for
  truthiness or compares it with \<open>===\<close> against a string. A stored timestamp is never
  the empty string, so it is truthy. The field \<open>id\<close> is \<open>member_id\<close> here, and the fields
  \<open>id\<close> and \<open>type\<close> of an attendance record are \<open>record_id\<close> and \<open>record_type\<close>.
\<close>

record member =
  member_id :: "string option"
  name :: string
  email :: string
  phone :: string
  membershipType :: string
  membershipStartDate :: "time option"
  membershipEndDate :: "time option"
  photo :: string
  registrationDate :: "time option"
  lastCheckIn :: "time option"
  lastCheckOut :: "time option"

text \<open>The properties of an object literal such as \<open>{ lastCheckIn: ..., lastCheckOut: null }\<close>,
  and the spread \<open>{ ...m, ...updates }\<close>, which assigns them to a copy of \<open>m\<close> in order.\<close>

datatype member_property =
    Id "string option"
  | Name string
  | Email string
  | Phone string
  | MembershipType string
  | MembershipStartDate "time option"
  | MembershipEndDate "time option"
  | Photo string
  | RegistrationDate "time option"
  | LastCheckIn "time option"
  | LastCheckOut "time option"

fun assign :: "member_property \<Rightarrow> 'a member_scheme \<Rightarrow> 'a member_scheme" where
  "assign (Id v) m = m\<lparr>member_id := v\<rparr>"
| "assign (Name v) m = m\<lparr>name := v\<rparr>"
| "assign (Email v) m = m\<lparr>email := v\<rparr>"
| "assign (Phone v) m = m\<lparr>phone := v\<rparr>"
| "assign (MembershipType v) m = m\<lparr>membershipType := v\<rparr>"
| "assign (MembershipStartDate v) m = m\<lparr>membershipStartDate := v\<rparr>"
| "assign (MembershipEndDate v) m = m\<lparr>membershipEndDate := v\<rparr>"
| "assign (Photo v) m = m\<lparr>photo := v\<rparr>"
| "assign (RegistrationDate v) m = m\<lparr>registrationDate := v\<rparr>"
| "assign (LastCheckIn v) m = m\<lparr>lastCheckIn := v\<rparr>"
| "assign (LastCheckOut v) m = m\<lparr>lastCheckOut := v\<rparr>"

definition spread :: "'a member_scheme \<Rightarrow> member_property list \<Rightarrow> 'a member_scheme" where
  "spread m updates = foldl (\<lambda>acc p. assign p acc) m updates"

record attendanceRecord =
  record_id :: string
  memberId :: string
  record_type :: string
  timestamp :: time
  date :: string

text \<open>
  \<open>localStorage\<close> under the three keys of \<open>StorageService.KEYS\<close>. The two collections
  are kept as the lists their JSON text encodes; the counter is kept as the string it is.
  \<open>None\<close> is a key that is not set.
\<close>

record 'a localStorage =
  gym_members :: "'a member_scheme list option"
  gym_attendance :: "attendanceRecord list option"
  member_id_counter :: "string option"

text \<open>\<open>localStorage.getItem(key) || dflt\<close> on a string item: a missing item and the empty
  string are falsy.\<close>

definition getItemOr :: "string option \<Rightarrow> string \<Rightarrow> string" where
  "getItemOr item dflt = (case item of None \<Rightarrow> dflt | Some v \<Rightarrow> if v = [] then dflt else v)"

section \<open>StorageService (storage.js)\<close>

text \<open>Every operation takes the storage and returns its result with the storage it leaves.
  The clock is read by the caller of the model: \<open>now\<close> is the value of \<open>new Date()\<close>,
  \<open>stamp\<close> that of \<open>Date.now()\<close>. A write to \<open>localStorage\<close> succeeds; the quota of
  the browser is not modelled.\<close>

definition init :: "'a localStorage \<Rightarrow> 'a localStorage" where
  "init s =
     (let s = (if gym_members s = None then s\<lparr>gym_members := Some []\<rparr> else s);
          s = (if gym_attendance s = None then s\<lparr>gym_attendance := Some []\<rparr> else s);
          s = (if getItemOr (member_id_counter s) [] = []
               then s\<lparr>member_id_counter := Some ''1000''\<rparr> else s)
      in s)"

definition getMembers :: "'a localStorage \<Rightarrow> 'a member_scheme list" where
  "getMembers s = (case gym_members s of None \<Rightarrow> [] | Some members \<Rightarrow> members)"

definition saveMembers :: "'a member_scheme list \<Rightarrow> 'a localStorage \<Rightarrow> 'a localStorage" where
  "saveMembers members s = s\<lparr>gym_members := Some members\<rparr>"

definition getMemberById :: "string \<Rightarrow> 'a localStorage \<Rightarrow> 'a member_scheme option" where
  "getMemberById ident s = find (\<lambda>member. member_id member = Some ident) (getMembers s)"

definition generateMemberId :: "'a localStorage \<Rightarrow> string \<times> 'a localStorage" where
  "generateMemberId s =
     (let counter = parseInt (getItemOr (member_id_counter s) ''1000'');
          counter = increment counter;
          s = s\<lparr>member_id_counter := Some (toString counter)\<rparr>
      in (toString counter, s))"

definition addMember ::
  "time \<Rightarrow> 'a member_scheme \<Rightarrow> 'a localStorage \<Rightarrow> 'a member_scheme \<times> 'a localStorage" where
  "addMember now member s =
     (let members = getMembers s;
          (newId, s) = generateMemberId s;
          newMember = spread member
            [Id (Some newId), RegistrationDate (Some now), LastCheckIn None, LastCheckOut None];
          members = members @ [newMember]
      in (newMember, saveMembers members s))"

text \<open>\<open>Array.prototype.findIndex\<close>: the first index that satisfies the predicate,
  \<open>None\<close> for \<open>-1\<close>.\<close>

fun findIndex :: "('a \<Rightarrow> bool) \<Rightarrow> 'a list \<Rightarrow> nat option" where
  "findIndex P [] = None"
| "findIndex P (x # xs) = (if P x then Some 0 else map_option Suc (findIndex P xs))"

definition updateMember ::
  "string \<Rightarrow> member_property list \<Rightarrow> 'a localStorage
     \<Rightarrow> 'a member_scheme option \<times> 'a localStorage" where
  "updateMember ident updates s =
     (let members = getMembers s
      in case findIndex (\<lambda>member. member_id member = Some ident) members of
           None \<Rightarrow> (None, s)
         | Some index \<Rightarrow>
             (let members = members[index := spread (members ! index) updates]
              in (Some (members ! index), saveMembers members s)))"

definition deleteMember :: "string \<Rightarrow> 'a localStorage \<Rightarrow> bool \<times> 'a localStorage" where
  "deleteMember ident s =
     (let members = getMembers s;
          initialLength = length members;
          filteredMembers = filter (\<lambda>member. member_id member \<noteq> Some ident) members
      in if length filteredMembers = initialLength then (False, s)
         else (True, saveMembers filteredMembers s))"

definition getAttendance :: "'a localStorage \<Rightarrow> attendanceRecord list" where
  "getAttendance s = (case gym_attendance s of None \<Rightarrow> [] | Some records \<Rightarrow> records)"

definition saveAttendance :: "attendanceRecord list \<Rightarrow> 'a localStorage \<Rightarrow> 'a localStorage" where
  "saveAttendance records s = s\<lparr>gym_attendance := Some records\<rparr>"

definition getMemberAttendance :: "string \<Rightarrow> 'a localStorage \<Rightarrow> attendanceRecord list" where
  "getMemberAttendance ident s = filter (\<lambda>record. memberId record = ident) (getAttendance s)"

definition checkIn ::
  "'h host_scheme \<Rightarrow> time \<Rightarrow> time \<Rightarrow> string \<Rightarrow> 'a localStorage
     \<Rightarrow> attendanceRecord option \<times> 'a localStorage" where
  "checkIn h now stamp ident s =
     (case getMemberById ident s of
        None \<Rightarrow> (None, s)
      | Some member \<Rightarrow>
          (let checkInRecord =
                 \<lparr>record_id = toString (Num stamp), memberId = ident,
                  record_type = ''check-in'', timestamp = now, date = localeDate h now\<rparr>;
               (updated, s) = updateMember ident [LastCheckIn (Some now), LastCheckOut None] s;
               records = getAttendance s;
               records = records @ [checkInRecord]
           in (Some checkInRecord, saveAttendance records s)))"

definition checkOut ::
  "'h host_scheme \<Rightarrow> time \<Rightarrow> time \<Rightarrow> string \<Rightarrow> 'a localStorage
     \<Rightarrow> attendanceRecord option \<times> 'a localStorage" where
  "checkOut h now stamp ident s =
     (case getMemberById ident s of
        None \<Rightarrow> (None, s)
      | Some member \<Rightarrow>
          (let checkOutRecord =
                 \<lparr>record_id = toString (Num stamp), memberId = ident,
                  record_type = ''check-out'', timestamp = now, date = localeDate h now\<rparr>;
               (updated, s) = updateMember ident [LastCheckOut (Some now)] s;
               records = getAttendance s;
               records = records @ [checkOutRecord]
           in (Some checkOutRecord, saveAttendance records s)))"

text \<open>\<open>Math.ceil(diffTime / (1000 * 60 * 60 * 24))\<close> divides exactly and rounds up.\<close>

definition calculateDaysRemaining ::
  "'h host_scheme \<Rightarrow> time \<Rightarrow> 'a member_scheme option \<Rightarrow> int" where
  "calculateDaysRemaining h now member =
     (case member of
        None \<Rightarrow> 0
      | Some m \<Rightarrow>
          (case membershipEndDate m of
             None \<Rightarrow> 0
           | Some e \<Rightarrow>
               (let today = setHours h now 0 0 0 0;
                    endDate = setHours h e 0 0 0 0;
                    diffTime = endDate - today;
                    diffDays = \<lceil>real_of_int diffTime / (1000 * 60 * 60 * 24)\<rceil>
                in max 0 diffDays)))"

definition getMemberStatus ::
  "'h host_scheme \<Rightarrow> time \<Rightarrow> 'a member_scheme option \<Rightarrow> string" where
  "getMemberStatus h now member =
     (case member of
        None \<Rightarrow> ''not-checked-in''
      | Some m \<Rightarrow>
          if lastCheckIn m \<noteq> None \<and> lastCheckOut m = None then ''checked-in''
          else (case lastCheckOut m of
                  Some lco \<Rightarrow>
                    if toDateString h lco = toDateString h now then ''checked-out''
                    else ''not-checked-in''
                | None \<Rightarrow> ''not-checked-in''))"

section \<open>MembersService: registration\<close>




section \<open>Notions of the specification\<close>

text \<open>The calendar date of a time value in local time: year, month and day of the month.\<close>

definition calendarDate :: "'h host_scheme \<Rightarrow> time \<Rightarrow> int \<times> int \<times> int" where
  "calendarDate h d =
     (let t = LocalTime h d in (YearFromTime t, MonthFromTime t, DateFromTime t))"

text \<open>A time value normalized to midnight local time: the start of its local day.\<close>

definition localMidnight :: "'h host_scheme \<Rightarrow> time \<Rightarrow> time" where
  "localMidnight h d = UTC h (Day (LocalTime h d) * msPerDay)"



text \<open>A local time that the zone's clock shows: the time it is read as has this local
  time. The hour that the clock skips when daylight saving begins is not shown.\<close>

definition localTimeShown :: "'h host_scheme \<Rightarrow> time \<Rightarrow> bool" where
  "localTimeShown h t = (LocalTime h (UTC h t) = t)"

text \<open>The persisted counter as \<open>generateMemberId\<close> reads it: 1000 when it is not set.\<close>

definition counterValue :: "'a localStorage \<Rightarrow> number" where
  "counterValue s = parseInt (getItemOr (member_id_counter s) ''1000'')"

text \<open>\<open>n\<close> successive calls of \<open>generateMemberId\<close>, with the ids they return in order.\<close>

fun generateMemberIds :: "nat \<Rightarrow> 'a localStorage \<Rightarrow> string list \<times> 'a localStorage" where
  "generateMemberIds 0 s = ([], s)"
| "generateMemberIds (Suc n) s =
     (let (newId, s) = generateMemberId s;
          (ids, s) = generateMemberIds n s
      in (newId # ids, s))"

text \<open>Hosts for the examples. Their \<open>toLocaleDateString\<close> prints month, day and year of
  local time.\<close>

definition usDate :: "time \<Rightarrow> string" where
  "usDate t =
     toString (Num (MonthFromTime t + 1)) @ ''/'' @ toString (Num (DateFromTime t)) @ ''/''
       @ toString (Num (YearFromTime t))"

text \<open>A zone at a fixed offset from UTC.\<close>

definition fixedOffsetHost :: "int \<Rightarrow> host" where
  "fixedOffsetHost off =
     \<lparr>LocalTZA = (\<lambda>t isUTC. off), localeDate = (\<lambda>d. usDate (d + off))\<rparr>"

text \<open>A zone with daylight saving, the United Kingdom's in 2024: local time is UTC, and one
  hour ahead from 31 March 01:00 UTC to 27 October 01:00 UTC. A local time that the
  clock skips or shows twice is read with the offset before the change.\<close>

definition dstHost :: host where
  "dstHost =
     \<lparr>LocalTZA = (\<lambda>t isUTC.
        if isUTC then (if 1711846800000 \<le> t \<and> t < 1729990800000 then 3600000 else 0)
        else (if 1711850400000 \<le> t \<and> t < 1729994400000 then 3600000 else 0)),
      localeDate = (\<lambda>d.
        usDate (d + (if 1711846800000 \<le> d \<and> d < 1729990800000 then 3600000 else 0)))\<rparr>"

text \<open>The storage right after the script has loaded in a fresh browser.\<close>

definition freshStorage :: "unit localStorage" where
  "freshStorage = init \<lparr>gym_members = None, gym_attendance = None, member_id_counter = None\<rparr>"

text \<open>Two members and a storage that holds them, for the examples: Asha has never
  checked in, Ravi checked in on 1 February 2024. Asha's quarterly plan runs from
  1 January 2024 to 31 March 2024.\<close>

definition asha :: member where
  "asha =
     \<lparr>member_id = Some ''1001'', name = ''Asha'', email = ''asha@example.org'',
      phone = ''5550100'', membershipType = ''quarterly'',
      membershipStartDate = Some 1704067200000, membershipEndDate = Some 1711843200000,
      photo = ''img/default-profile.png'', registrationDate = Some 1704067200000,
      lastCheckIn = None, lastCheckOut = None\<rparr>"

definition ravi :: member where
  "ravi =
     \<lparr>member_id = Some ''1002'', name = ''Ravi'', email = ''ravi@example.org'',
      phone = ''5550101'', membershipType = ''annual'',
      membershipStartDate = Some 1704067200000, membershipEndDate = Some 1735603200000,
      photo = ''img/default-profile.png'', registrationDate = Some 1704067200000,
      lastCheckIn = Some 1706752800000, lastCheckOut = None\<rparr>"

definition exampleStorage :: "unit localStorage" where
  "exampleStorage =
     \<lparr>gym_members = Some [asha, ravi], gym_attendance = Some [],
      member_id_counter = Some ''1002''\<rparr>"

section \<open>Properties of the host model\<close>

subsection \<open>Numbers and decimal strings\<close>

text \<open>Up to \<open>2^53\<close> every integer is a double, and \<open>counter++\<close> adds one. At \<open>2^53\<close> it
  adds nothing.\<close>

lemma toNumber_exact: "\<bar>v\<bar> < 9007199254740992 \<Longrightarrow> toNumber v = Num v"
  by (simp add: toNumber_def)

lemma toNumber_limit: "toNumber 9007199254740992 = Num 9007199254740992"
  by code_simp

lemma toNumber_upto:
  assumes "0 \<le> v" and "v \<le> 9007199254740992"
  shows "toNumber v = Num v"
proof (cases "v = 9007199254740992")
  case True
  then show ?thesis by (simp only: toNumber_limit)
next
  case False
  with assms show ?thesis by (intro toNumber_exact) simp
qed

lemma increment_exact:
  assumes "0 \<le> c" and "c < 9007199254740992"
  shows "increment (Num c) = Num (c + 1)"
  using assms by (simp add: increment_def toNumber_upto)

lemma increment_limit: "increment (Num 9007199254740992) = Num 9007199254740992"
  by code_simp

lemma toNumber_rounds:
  "toNumber 9007199254740993 = Num 9007199254740992"
  "toNumber 9007199254740995 = Num 9007199254740996"
  by code_simp+

lemma toString_examples:
  "toString (Num 1706760000003) = ''1706760000003''"
  "toString (Num (- 42)) = ''-42''"
  by code_simp+

text \<open>Beyond \<open>2^53\<close> the shortest digits are printed, not all of them, and from \<open>10^21\<close> on
  with an exponent.\<close>

lemma toString_shortest: "toString (toNumber (2 ^ 64)) = ''18446744073709552000''"
  by code_simp

lemma toString_exponent: "toString (toNumber (10 ^ 21)) = ''1e+21''"
  by code_simp

lemma digitValue_digitChar: "d < 10 \<Longrightarrow> digitValue (digitChar d) = d"
  by (simp add: digitValue_def digitChar_def Let_def)

lemma decimalString_nonempty: "decimalString n \<noteq> []"
  by (subst decimalString.simps) simp

lemma decimalString_digits: "c \<in> set (decimalString n) \<Longrightarrow> digitValue c < 10"
proof (induction n rule: decimalString.induct)
  case (1 n)
  show ?case
  proof (cases "n < 10")
    case True
    then have "decimalString n = [digitChar (nat n)]" by (subst decimalString.simps) simp
    moreover have "nat n < 10" using True by simp
    ultimately show ?thesis using "1.prems" by (simp add: digitValue_digitChar)
  next
    case False
    then have "decimalString n = decimalString (n div 10) @ [digitChar (nat (n mod 10))]"
      by (subst decimalString.simps) simp
    moreover have "nat (n mod 10) < 10" by simp
    ultimately show ?thesis
      using "1.prems" "1.IH" False by (auto simp: digitValue_digitChar)
  qed
qed

lemma digitsValue_snoc:
  "digitsValue R (ds @ [c]) = digitsValue R ds * int R + int (digitValue c)"
  by (simp add: digitsValue_def)

lemma digitsValue_decimalString: "0 \<le> n \<Longrightarrow> digitsValue 10 (decimalString n) = n"
proof (induction n rule: decimalString.induct)
  case (1 n)
  show ?case
  proof (cases "n < 10")
    case True
    then have "decimalString n = [digitChar (nat n)]" by (subst decimalString.simps) simp
    with True "1.prems" show ?thesis by (simp add: digitsValue_def digitValue_digitChar)
  next
    case False
    then have "decimalString n = decimalString (n div 10) @ [digitChar (nat (n mod 10))]"
      by (subst decimalString.simps) simp
    moreover have "digitsValue 10 (decimalString (n div 10)) = n div 10"
      using False "1.prems" by (intro "1.IH") simp_all
    ultimately show ?thesis
      using "1.prems" by (simp add: digitsValue_snoc digitValue_digitChar)
  qed
qed

lemma parseInt_digits:
  assumes "ds \<noteq> []" and "\<forall>c\<in>set ds. digitValue c < 10"
  shows "parseInt ds = toNumber (digitsValue 10 ds)"
proof -
  have hd: "digitValue (hd ds) < 10" using assms by simp
  have "\<not> isWhiteSpace (hd ds)"
    using hd by (auto simp: isWhiteSpace_def digitValue_def)
  then have 1: "dropWhile isWhiteSpace ds = ds"
    using assms(1) by (cases ds) simp_all
  have 2: "hd ds \<noteq> CHR ''-''" "hd ds \<noteq> CHR ''+''"
    using hd by (auto simp: digitValue_def)
  have x: "CHR ''x'' \<notin> set ds" "CHR ''X'' \<notin> set ds"
    using assms(2) by (auto simp: digitValue_def)
  have 3: "take 2 ds \<noteq> ''0x''" "take 2 ds \<noteq> ''0X''"
  proof -
    have "set (take 2 ds) \<subseteq> set ds" by (rule set_take_subset)
    with x show "take 2 ds \<noteq> ''0x''" "take 2 ds \<noteq> ''0X''" by auto
  qed
  have 4: "takeWhile (isRadixDigit 10) ds = ds"
    using assms(2) by (simp add: isRadixDigit_def)
  show ?thesis
    unfolding parseInt_def Let_def 1 using assms(1) 2 3 by (simp add: 4)
qed

lemma toString_decimal:
  assumes "0 \<le> i" and "i < 9007199254740992"
  shows "toString (Num i) = decimalString i"
  using assms by (simp add: toString_def)

lemma parseInt_toString:
  assumes "0 \<le> i" and "i < 9007199254740992"
  shows "parseInt (toString (Num i)) = Num i"
proof -
  have "parseInt (decimalString i) = toNumber (digitsValue 10 (decimalString i))"
    by (rule parseInt_digits) (simp_all add: decimalString_nonempty decimalString_digits)
  also have "\<dots> = toNumber i" using assms(1) by (simp add: digitsValue_decimalString)
  also have "\<dots> = Num i" using assms by (intro toNumber_exact) simp
  finally show ?thesis using assms by (simp add: toString_decimal)
qed

lemma toString_nonempty:
  "0 \<le> i \<Longrightarrow> i < 9007199254740992 \<Longrightarrow> toString (Num i) \<noteq> []"
  by (simp add: toString_decimal decimalString_nonempty)

lemma toString_inj:
  assumes "0 \<le> i" "i < 9007199254740992" "0 \<le> j" "j < 9007199254740992"
    and "toString (Num i) = toString (Num j)"
  shows "i = j"
proof -
  have "Num i = parseInt (toString (Num i))" using assms(1,2) by (simp add: parseInt_toString)
  also have "\<dots> = Num j" using assms(3,4,5) by (simp add: parseInt_toString)
  finally show ?thesis by simp
qed

subsection \<open>The id counter\<close>

lemma parseInt_1000: "parseInt ''1000'' = Num 1000"
  by code_simp

lemma counterValue_toString:
  assumes "0 \<le> c" and "c < 9007199254740992"
  shows "counterValue (s\<lparr>member_id_counter := Some (toString (Num c))\<rparr>) = Num c"
  using assms by (simp add: counterValue_def getItemOr_def toString_nonempty parseInt_toString)

lemma counterValue_unset: "member_id_counter s = None \<Longrightarrow> counterValue s = Num 1000"
  by (simp add: counterValue_def getItemOr_def parseInt_1000)

lemma counterValue_init:
  "member_id_counter s = None \<Longrightarrow> counterValue (init s) = Num 1000"
proof -
  assume "member_id_counter s = None"
  then have "member_id_counter (init s) = Some ''1000''"
    by (simp add: init_def getItemOr_def Let_def)
  then show ?thesis by (simp add: counterValue_def getItemOr_def parseInt_1000)
qed

lemma generateMemberId_step:
  assumes "counterValue s = Num c" and "0 \<le> c" and "c < 9007199254740992"
  shows "generateMemberId s =
    (toString (Num (c + 1)), s\<lparr>member_id_counter := Some (toString (Num (c + 1)))\<rparr>)"
proof -
  have "increment (Num c) = Num (c + 1)" using assms(2,3) by (rule increment_exact)
  with assms(1) show ?thesis
    by (simp add: generateMemberId_def counterValue_def Let_def)
qed

lemma generateMemberIds_list:
  assumes "counterValue s = Num c" and "0 \<le> c" and "c + int n < 9007199254740992"
  shows "fst (generateMemberIds n s) = map (\<lambda>k. toString (Num (c + 1 + int k))) [0..<n]
    \<and> counterValue (snd (generateMemberIds n s)) = Num (c + int n)"
  using assms
proof (induction n arbitrary: s c)
  case 0
  then show ?case by simp
next
  case (Suc n)
  let ?s1 = "s\<lparr>member_id_counter := Some (toString (Num (c + 1)))\<rparr>"
  have c: "c < 9007199254740992" "0 \<le> c + 1" "c + 1 < 9007199254740992"
    "c + 1 + int n < 9007199254740992"
    using Suc.prems(2,3) by simp_all
  have step: "generateMemberId s = (toString (Num (c + 1)), ?s1)"
    using Suc.prems(1,2) c(1) by (rule generateMemberId_step)
  have cv: "counterValue ?s1 = Num (c + 1)"
    using c(2,3) by (rule counterValue_toString)
  have IH: "fst (generateMemberIds n ?s1) = map (\<lambda>k. toString (Num (c + 1 + 1 + int k))) [0..<n]
    \<and> counterValue (snd (generateMemberIds n ?s1)) = Num (c + 1 + int n)"
    using Suc.IH [OF cv c(2) c(4)] by simp
  have m: "map (\<lambda>k. toString (Num (c + 1 + int k))) [0..<Suc n] =
      toString (Num (c + 1)) # map (\<lambda>k. toString (Num (c + 1 + 1 + int k))) [0..<n]"
    by (simp add: map_upt_Suc add.assoc del: upt_Suc)
  show ?case
    unfolding m using step IH by (simp add: split_beta add.assoc)
qed

subsection \<open>The calendar\<close>

text \<open>The day number of a time value is the first of its month plus its day of the month:
  the calendar functions and \<open>MakeDay\<close> are inverse to each other.\<close>

lemma Day_decomp:
  "Day t = firstOfMonth (YearFromTime t) (MonthFromTime t) + DateFromTime t - 1"
proof -
  have L: "(if DaysInYear (YearFromTime t) = 365 then 0 else 1) = InLeapYear t"
    by (simp add: InLeapYear_def)
  have "daysBeforeMonth (MonthFromTime t) (InLeapYear t) + DateFromTime t - 1 = DayWithinYear t"
    unfolding DateFromTime_def MonthFromTime_def daysBeforeMonth_def Let_def
    by simp
  then show ?thesis
    unfolding firstOfMonth_def L by (simp add: DayWithinYear_def)
qed

lemma floor_div_bounds:
  fixes a b :: int
  assumes "0 < b"
  shows "b * (a div b) \<le> a" and "a < b * (a div b) + b"
proof -
  have "a = b * (a div b) + a mod b" by simp
  moreover have "0 \<le> a mod b" "a mod b < b" using assms by simp_all
  ultimately show "b * (a div b) \<le> a" and "a < b * (a div b) + b" by linarith+
qed

lemma DayFromYear_bounds:
  "146097 * k - 607 \<le> 400 * DayFromYear (1970 + k)"
  "400 * DayFromYear (1970 + k) \<le> 146097 * k + 593"
proof -
  define a where "a = (k + 1) div 4"
  define b where "b = (k + 69) div 100"
  define c where "c = (k + 369) div 400"
  have D: "DayFromYear (1970 + k) = 365 * k + a - b + c"
    by (simp add: DayFromYear_def a_def b_def c_def add.commute)
  have A: "4 * a \<le> k + 1" "k + 1 < 4 * a + 4"
    unfolding a_def by (rule floor_div_bounds, simp)+
  have B: "100 * b \<le> k + 69" "k + 69 < 100 * b + 100"
    unfolding b_def by (rule floor_div_bounds, simp)+
  have C: "400 * c \<le> k + 369" "k + 369 < 400 * c + 400"
    unfolding c_def by (rule floor_div_bounds, simp)+
  show "146097 * k - 607 \<le> 400 * DayFromYear (1970 + k)"
    using D A B C by linarith
  show "400 * DayFromYear (1970 + k) \<le> 146097 * k + 593"
    using D A B C by linarith
qed

lemma YearFromTime_spec:
  "DayFromYear (YearFromTime t) \<le> Day t" "Day t < DayFromYear (YearFromTime t + 1)"
proof -
  define d where "d = Day t"
  define q where "q = (400 * d) div 146097"
  have Q: "146097 * q \<le> 400 * d" "400 * d < 146097 * q + 146097"
    unfolding q_def by (rule floor_div_bounds, simp)+
  have "400 * DayFromYear (1970 + (q - 1)) \<le> 146097 * (q - 1) + 593"
    by (rule DayFromYear_bounds)
  then have lo: "DayFromYear (1970 + q - 1) \<le> d"
    using Q by (simp add: algebra_simps)
  have "146097 * (q + 2) - 607 \<le> 400 * DayFromYear (1970 + (q + 2))"
    by (rule DayFromYear_bounds)
  then have hi: "d < DayFromYear (1970 + q + 2)"
    using Q by (simp add: algebra_simps)
  have Y: "YearFromTime t =
      (if DayFromYear (1970 + q + 1) \<le> d then 1970 + q + 1
       else if DayFromYear (1970 + q) \<le> d then 1970 + q else 1970 + q - 1)"
    by (simp add: YearFromTime_def Let_def d_def q_def)
  show "DayFromYear (YearFromTime t) \<le> Day t"
    unfolding Y d_def [symmetric] using lo by simp
  show "Day t < DayFromYear (YearFromTime t + 1)"
    unfolding Y d_def [symmetric] using hi by (simp add: add.assoc)
qed

text \<open>\<open>YearFromTime\<close> and \<open>firstOfMonth\<close> are what ECMA-262 defines.\<close>

lemma DayFromYear_mono:
  assumes "y \<le> y'"
  shows "DayFromYear y \<le> DayFromYear y'"
proof -
  define a where "a = (y - 1969) div 4"
  define a' where "a' = (y' - 1969) div 4"
  define b where "b = (y - 1901) div 100"
  define b' where "b' = (y' - 1901) div 100"
  define c where "c = (y - 1601) div 400"
  define c' where "c' = (y' - 1601) div 400"
  have A: "a \<le> a'" unfolding a_def a'_def using assms by (intro zdiv_mono1) simp_all
  have C: "c \<le> c'" unfolding c_def c'_def using assms by (intro zdiv_mono1) simp_all
  have B: "y - 1901 < 100 * b + 100" unfolding b_def by (rule floor_div_bounds, simp)
  have B': "100 * b' \<le> y' - 1901" unfolding b'_def by (rule floor_div_bounds, simp)
  have "b' - b \<le> 365 * y' - 365 * y"
  proof (cases "y = y'")
    case True
    then show ?thesis by (simp add: b_def b'_def)
  next
    case False
    with assms have "1 \<le> y' - y" by simp
    with B B' show ?thesis by linarith
  qed
  moreover have "DayFromYear y = 365 * y - 719050 + a - b + c"
    by (simp add: DayFromYear_def a_def b_def c_def)
  moreover have "DayFromYear y' = 365 * y' - 719050 + a' - b' + c'"
    by (simp add: DayFromYear_def a'_def b'_def c'_def)
  ultimately show ?thesis using A C by linarith
qed

lemma Day_TimeFromYear: "(TimeFromYear y \<le> t) = (DayFromYear y \<le> Day t)"
proof -
  define q where "q = t div 86400000"
  have Q: "86400000 * q \<le> t" "t < 86400000 * q + 86400000"
    unfolding q_def by (rule floor_div_bounds, simp)+
  have "(86400000 * DayFromYear y \<le> t) = (DayFromYear y \<le> q)"
    using Q by linarith
  then show ?thesis by (simp add: TimeFromYear_def Day_def msPerDay_def q_def)
qed

lemma YearFromTime_largest:
  "TimeFromYear (YearFromTime t) \<le> t"
  "TimeFromYear y \<le> t \<Longrightarrow> y \<le> YearFromTime t"
proof -
  show "TimeFromYear (YearFromTime t) \<le> t"
    by (simp add: Day_TimeFromYear YearFromTime_spec)
  assume "TimeFromYear y \<le> t"
  then have le: "DayFromYear y \<le> Day t" by (simp add: Day_TimeFromYear)
  show "y \<le> YearFromTime t"
  proof (rule ccontr)
    assume "\<not> y \<le> YearFromTime t"
    then have "YearFromTime t + 1 \<le> y" by simp
    then have "DayFromYear (YearFromTime t + 1) \<le> DayFromYear y" by (rule DayFromYear_mono)
    with le YearFromTime_spec(2) [of t] show False by simp
  qed
qed


lemma div_succ:
  fixes a n :: int
  assumes "1 < n"
  shows "(a + 1) div n = a div n + (if (a + 1) mod n = 0 then 1 else 0)"
proof -
  define q where "q = a div n"
  define r where "r = a mod n"
  have r: "0 \<le> r" "r < n" using assms by (simp_all add: r_def)
  have "a = n * q + r" by (simp add: q_def r_def)
  then have a1: "a + 1 = n * q + (r + 1)" by simp
  have d: "(a + 1) div n = q + (r + 1) div n"
    unfolding a1 using assms by simp
  have m: "(a + 1) mod n = (r + 1) mod n"
    unfolding a1 by simp
  show ?thesis
  proof (cases "r + 1 = n")
    case True
    with d m assms show ?thesis by (simp add: q_def)
  next
    case False
    with r have "0 \<le> r + 1" "r + 1 < n" by simp_all
    then have "(r + 1) div n = 0" "(r + 1) mod n = r + 1"
      by simp_all
    with d m r show ?thesis by (simp add: q_def)
  qed
qed

lemma DayFromYear_step: "DayFromYear (y + 1) = DayFromYear y + DaysInYear y"
proof -
  have m4: "(y - 1968) mod 4 = y mod 4"
  proof -
    have "y - 1968 = y + 4 * (- 492)" by simp
    then show ?thesis by (simp only: mod_mult_self2)
  qed
  have m100: "(y - 1900) mod 100 = y mod 100"
  proof -
    have "y - 1900 = y + 100 * (- 19)" by simp
    then show ?thesis by (simp only: mod_mult_self2)
  qed
  have m400: "(y - 1600) mod 400 = y mod 400"
  proof -
    have "y - 1600 = y + 400 * (- 4)" by simp
    then show ?thesis by (simp only: mod_mult_self2)
  qed
  have s4: "(y - 1968) div 4 = (y - 1969) div 4 + (if y mod 4 = 0 then 1 else 0)"
    using div_succ [of 4 "y - 1969"] m4 by simp
  have s100: "(y - 1900) div 100 = (y - 1901) div 100 + (if y mod 100 = 0 then 1 else 0)"
    using div_succ [of 100 "y - 1901"] m100 by simp
  have s400: "(y - 1600) div 400 = (y - 1601) div 400 + (if y mod 400 = 0 then 1 else 0)"
    using div_succ [of 400 "y - 1601"] m400 by simp
  have "y mod 100 mod 4 = y mod 4" by (rule mod_mod_cancel) simp
  then have c1: "y mod 100 = 0 \<Longrightarrow> y mod 4 = 0" by auto
  have "y mod 400 mod 100 = y mod 100" by (rule mod_mod_cancel) simp
  then have c2: "y mod 400 = 0 \<Longrightarrow> y mod 100 = 0" by auto
  have "DayFromYear (y + 1) =
      365 * (y - 1969) + (y - 1968) div 4 - (y - 1900) div 100 + (y - 1600) div 400"
    by (simp add: DayFromYear_def)
  also have "\<dots> = DayFromYear y + DaysInYear y"
    unfolding s4 s100 s400 using c1 c2 by (auto simp: DayFromYear_def DaysInYear_def)
  finally show ?thesis .
qed

lemma YearFromTime_unique:
  assumes "DayFromYear y \<le> Day t" and "Day t < DayFromYear (y + 1)"
  shows "YearFromTime t = y"
proof (rule antisym)
  show "y \<le> YearFromTime t"
    using assms(1) by (intro YearFromTime_largest) (simp add: Day_TimeFromYear)
  show "YearFromTime t \<le> y"
  proof (rule ccontr)
    assume "\<not> YearFromTime t \<le> y"
    then have "y + 1 \<le> YearFromTime t" by simp
    then have "DayFromYear (y + 1) \<le> DayFromYear (YearFromTime t)" by (rule DayFromYear_mono)
    with YearFromTime_spec(1) [of t] assms(2) show False by simp
  qed
qed

lemma month_cases:
  fixes mn :: int
  assumes "0 \<le> mn" and "mn \<le> 11"
  shows "mn = 0 \<or> mn = 1 \<or> mn = 2 \<or> mn = 3 \<or> mn = 4 \<or> mn = 5 \<or> mn = 6 \<or> mn = 7
    \<or> mn = 8 \<or> mn = 9 \<or> mn = 10 \<or> mn = 11"
  using assms by presburger

lemma firstOfMonth_spec:
  assumes "0 \<le> mn" and "mn \<le> 11" and "Day t = firstOfMonth ym mn"
  shows "YearFromTime t = ym \<and> MonthFromTime t = mn \<and> DateFromTime t = 1"
proof -
  define L :: int where "L = (if DaysInYear ym = 365 then 0 else 1)"
  have L: "L = 0 \<or> L = 1" by (simp add: L_def)
  have diy: "DaysInYear ym = 365 + L" by (simp add: L_def DaysInYear_def)
  note mn = month_cases [OF assms(1,2)]
  have d: "Day t = DayFromYear ym + daysBeforeMonth mn L"
    using assms(3) by (simp add: firstOfMonth_def L_def)
  have range: "0 \<le> daysBeforeMonth mn L \<and> daysBeforeMonth mn L < 365 + L"
    using mn L by (elim disjE) (simp_all add: daysBeforeMonth_def)
  have Y: "YearFromTime t = ym"
  proof (rule YearFromTime_unique)
    show "DayFromYear ym \<le> Day t" using d range by simp
    show "Day t < DayFromYear (ym + 1)" using d range diy by (simp add: DayFromYear_step)
  qed
  have W: "DayWithinYear t = daysBeforeMonth mn L" using d Y by (simp add: DayWithinYear_def)
  have I: "InLeapYear t = L" using Y by (simp add: InLeapYear_def L_def)
  have M: "MonthFromTime t = mn"
    unfolding MonthFromTime_def W I Let_def using mn L
    by (elim disjE) (simp_all add: daysBeforeMonth_def)
  have "DateFromTime t = 1"
    unfolding DateFromTime_def M W I Let_def using mn L
    by (elim disjE) (simp_all add: daysBeforeMonth_def)
  with Y M show ?thesis by simp
qed

section \<open>The id counter: generateMemberId\<close>

lemma toString_distinct:
  assumes "0 \<le> c" and "c + int n < 9007199254740992"
  shows "distinct (map (\<lambda>k. toString (Num (c + 1 + int k))) [0..<n])"
proof -
  have "inj_on (\<lambda>k. toString (Num (c + 1 + int k))) (set [0..<n])"
  proof (rule inj_onI)
    fix x y
    assume x: "x \<in> set [0..<n]" and y: "y \<in> set [0..<n]"
      and eq: "toString (Num (c + 1 + int x)) = toString (Num (c + 1 + int y))"
    have "c + 1 + int x < 9007199254740992" "c + 1 + int y < 9007199254740992"
      using assms(2) x y by simp_all
    moreover have "0 \<le> c + 1 + int x" "0 \<le> c + 1 + int y" using assms(1) by simp_all
    ultimately have "c + 1 + int x = c + 1 + int y"
      using eq by (intro toString_inj)
    then show "x = y" by simp
  qed
  then show ?thesis by (simp add: distinct_map)
qed

lemma freshStorage_counter: "member_id_counter freshStorage = Some ''1000''"
  by (simp add: freshStorage_def init_def getItemOr_def Let_def)

lemma toString_1000: "toString (Num 1000) = ''1000''"
  by code_simp

text \<open>
  Claim C6. \<open>generateMemberId\<close> reads the persisted counter, which counts as 1000 when it
  has never been set, adds one, persists the new counter and returns it as a decimal
  string. Hence \<open>n\<close> successive calls, started from a counter \<open>c\<close> of at least 1000,
  return the strings of \<open>c + 1\<close>, \<open>c + 2\<close>, ..., \<open>c + n\<close>: strictly increasing values,
  all above 1000, and no string twice. This is for a counter that stays below \<open>2^53\<close>
  (9007199254740992), the range in which \<open>counter++\<close> adds one.
\<close>

theorem generateMemberId_sequence:
  assumes "counterValue s = Num c" and "1000 \<le> c" and "c + int n < 9007199254740992"
  shows "(member_id_counter s = None \<longrightarrow> c = 1000)
    \<and> generateMemberId s =
        (toString (Num (c + 1)), s\<lparr>member_id_counter := Some (toString (Num (c + 1)))\<rparr>)
    \<and> fst (generateMemberIds n s) = map (\<lambda>k. toString (Num (c + 1 + int k))) [0..<n]
    \<and> (\<forall>i j. i < j \<and> j < n \<longrightarrow>
          (\<exists>a b. parseInt (fst (generateMemberIds n s) ! i) = Num a
             \<and> parseInt (fst (generateMemberIds n s) ! j) = Num b \<and> 1000 < a \<and> a < b))
    \<and> distinct (fst (generateMemberIds n s))
    \<and> counterValue (snd (generateMemberIds n s)) = Num (c + int n)"
proof -
  have c0: "0 \<le> c" using assms(2) by simp
  have cB: "c < 9007199254740992" using assms(3) by simp
  have first: "member_id_counter s = None \<longrightarrow> c = 1000"
    using assms(1) counterValue_unset [of s] by auto
  have step: "generateMemberId s =
        (toString (Num (c + 1)), s\<lparr>member_id_counter := Some (toString (Num (c + 1)))\<rparr>)"
    using assms(1) c0 cB by (rule generateMemberId_step)
  have ids: "fst (generateMemberIds n s) = map (\<lambda>k. toString (Num (c + 1 + int k))) [0..<n]"
    and last: "counterValue (snd (generateMemberIds n s)) = Num (c + int n)"
    using generateMemberIds_list [OF assms(1) c0 assms(3)] by simp_all
  have val: "parseInt (fst (generateMemberIds n s) ! k) = Num (c + 1 + int k)" if "k < n" for k
  proof -
    have "0 \<le> c + 1 + int k" "c + 1 + int k < 9007199254740992"
      using c0 assms(3) that by simp_all
    then have "parseInt (toString (Num (c + 1 + int k))) = Num (c + 1 + int k)"
      by (rule parseInt_toString)
    then show ?thesis unfolding ids using that by simp
  qed
  have incr: "\<forall>i j. i < j \<and> j < n \<longrightarrow>
          (\<exists>a b. parseInt (fst (generateMemberIds n s) ! i) = Num a
             \<and> parseInt (fst (generateMemberIds n s) ! j) = Num b \<and> 1000 < a \<and> a < b)"
  proof (intro allI impI)
    fix i j
    assume ij: "i < j \<and> j < n"
    then have "parseInt (fst (generateMemberIds n s) ! i) = Num (c + 1 + int i)"
      and "parseInt (fst (generateMemberIds n s) ! j) = Num (c + 1 + int j)"
      by (simp_all add: val)
    moreover have "1000 < c + 1 + int i" "c + 1 + int i < c + 1 + int j"
      using assms(2) ij by simp_all
    ultimately show "\<exists>a b. parseInt (fst (generateMemberIds n s) ! i) = Num a
             \<and> parseInt (fst (generateMemberIds n s) ! j) = Num b \<and> 1000 < a \<and> a < b"
      by blast
  qed
  have dist: "distinct (fst (generateMemberIds n s))"
    unfolding ids using c0 assms(3) by (rule toString_distinct)
  from first step ids incr dist last show ?thesis by blast
qed

theorem generateMemberId_sequence_witness:
  "counterValue freshStorage = Num 1000
   \<and> (1000 :: int) + int 3 < 9007199254740992
   \<and> fst (generateMemberIds 3 freshStorage) = [''1001'', ''1002'', ''1003'']
   \<and> distinct (fst (generateMemberIds 3 freshStorage))
   \<and> counterValue (snd (generateMemberIds 3 freshStorage)) = Num 1003
   \<and> generateMemberId (exampleStorage\<lparr>member_id_counter := None\<rparr>)
       = (''1001'', exampleStorage\<lparr>member_id_counter := Some ''1001''\<rparr>)"
proof -
  have cv: "counterValue freshStorage = Num 1000"
    using freshStorage_counter by (simp add: counterValue_def getItemOr_def parseInt_1000)
  have n: "[0..<3] = [0, 1, 2]" by (simp add: upt_rec)
  have t: "toString (Num 1001) = ''1001''" "toString (Num 1002) = ''1002''"
    "toString (Num 1003) = ''1003''"
    by code_simp+
  have le: "(1000 :: int) \<le> 1000" by simp
  have b3: "(1000 :: int) + int 3 < 9007199254740992" by simp
  have b0: "(1000 :: int) + int 0 < 9007199254740992" by simp
  from generateMemberId_sequence [OF cv le b3]
  have "fst (generateMemberIds 3 freshStorage) = map (\<lambda>k. toString (Num (1000 + 1 + int k))) [0..<3]"
    and "distinct (fst (generateMemberIds 3 freshStorage))"
    and "counterValue (snd (generateMemberIds 3 freshStorage)) = Num (1000 + int 3)"
    by blast+
  moreover have "counterValue (exampleStorage\<lparr>member_id_counter := None\<rparr>) = Num 1000"
    by (rule counterValue_unset) simp
  from generateMemberId_sequence [OF this le b0]
  have "generateMemberId (exampleStorage\<lparr>member_id_counter := None\<rparr>)
       = (toString (Num (1000 + 1)), exampleStorage\<lparr>member_id_counter := Some (toString (Num (1000 + 1)))\<rparr>)"
    by simp
  ultimately show ?thesis using cv by (simp add: n t)
qed

section \<open>Calendar dates and local midnight\<close>

text \<open>Two time values have the same calendar date exactly when they fall on the same day
  number, and then \<open>toDateString\<close> prints the same for both.\<close>

lemma Day_of_calendar:
  assumes "YearFromTime a = YearFromTime b" "MonthFromTime a = MonthFromTime b"
    "DateFromTime a = DateFromTime b"
  shows "Day a = Day b"
  using Day_decomp [of a] Day_decomp [of b] assms by simp

lemma calendar_of_Day:
  assumes "Day a = Day b"
  shows "YearFromTime a = YearFromTime b" "MonthFromTime a = MonthFromTime b"
    "DateFromTime a = DateFromTime b" "WeekDay a = WeekDay b"
proof -
  show Y: "YearFromTime a = YearFromTime b"
    using assms by (simp add: YearFromTime_def)
  have L: "InLeapYear a = InLeapYear b" using Y by (simp add: InLeapYear_def)
  have W: "DayWithinYear a = DayWithinYear b" using Y assms by (simp add: DayWithinYear_def)
  show M: "MonthFromTime a = MonthFromTime b"
    using L W by (simp add: MonthFromTime_def)
  show "DateFromTime a = DateFromTime b"
    using L W M by (simp add: DateFromTime_def)
  show "WeekDay a = WeekDay b"
    using assms by (simp add: WeekDay_def)
qed

lemma calendarDate_eq_iff_Day:
  "(calendarDate h a = calendarDate h b) = (Day (LocalTime h a) = Day (LocalTime h b))"
  unfolding calendarDate_def Let_def
  using Day_of_calendar [of "LocalTime h a" "LocalTime h b"]
    calendar_of_Day [of "LocalTime h a" "LocalTime h b"]
  by auto

lemma toDateString_eq_iff:
  "(toDateString h a = toDateString h b) = (calendarDate h a = calendarDate h b)"
proof
  assume "toDateString h a = toDateString h b"
  then show "calendarDate h a = calendarDate h b"
    by (simp add: toDateString_def calendarDate_def Let_def)
next
  assume "calendarDate h a = calendarDate h b"
  then have "Day (LocalTime h a) = Day (LocalTime h b)"
    by (simp add: calendarDate_eq_iff_Day)
  then show "toDateString h a = toDateString h b"
    using calendar_of_Day [of "LocalTime h a" "LocalTime h b"]
    by (simp add: toDateString_def Let_def)
qed

text \<open>\<open>setDate(getDate() + n)\<close> moves a date by \<open>n\<close> days of local time and keeps the
  time of day.\<close>

lemma MonthFromTime_range: "0 \<le> MonthFromTime t \<and> MonthFromTime t \<le> 11"
  by (simp add: MonthFromTime_def Let_def)

lemma MakeDay_from_time: "MakeDay (YearFromTime t) (MonthFromTime t) (DateFromTime t + n) = Day t + n"
proof -
  have "MonthFromTime t div 12 = 0" "MonthFromTime t mod 12 = MonthFromTime t"
    using MonthFromTime_range [of t] by simp_all
  then show ?thesis
    using Day_decomp [of t] by (simp add: MakeDay_def Let_def)
qed

lemma setDate_getDate: "setDate h d (getDate h d + n) = UTC h (LocalTime h d + n * msPerDay)"
proof -
  have "(Day t + n) * msPerDay + TimeWithinDay t = t + n * msPerDay" for t
    by (simp add: Day_def TimeWithinDay_def algebra_simps)
  then show ?thesis
    by (simp add: setDate_def getDate_def Let_def MakeDay_from_time MakeDate_def)
qed

text \<open>\<open>setHours(0, 0, 0, 0)\<close> is the start of the local day.\<close>

lemma setHours_midnight: "setHours h d 0 0 0 0 = localMidnight h d"
  by (simp add: setHours_def localMidnight_def MakeDate_def MakeTime_def Let_def)

lemma fixedOffsetHost_LocalTime: "LocalTime (fixedOffsetHost off) t = t + off"
  by (simp add: LocalTime_def fixedOffsetHost_def)

lemma fixedOffsetHost_localMidnight:
  "localMidnight (fixedOffsetHost off) d = Day (d + off) * msPerDay - off"
  by (simp add: localMidnight_def fixedOffsetHost_def LocalTime_def UTC_def)




text \<open>The daylight saving zone: its local date never goes back, although its local clock
  does. Thirty days of local time across the change to summer time are an hour less
  than thirty times 24 hours.\<close>

lemma dstHost_LocalTime:
  "LocalTime dstHost t = t + (if 1711846800000 \<le> t \<and> t < 1729990800000 then 3600000 else 0)"
  by (simp add: LocalTime_def dstHost_def)

lemma dstHost_UTC:
  "UTC dstHost t = t - (if 1711850400000 \<le> t \<and> t < 1729994400000 then 3600000 else 0)"
  by (simp add: UTC_def dstHost_def)



text \<open>A zone at a fixed offset shows every local time. The daylight saving zone does not
  show 31 March 2024, 01:30: its clock goes from 01:00 to 02:00.\<close>

lemma fixedOffsetHost_localTimeShown: "localTimeShown (fixedOffsetHost off) t"
  by (simp add: localTimeShown_def LocalTime_def UTC_def fixedOffsetHost_def)

lemma dstHost_skipped_hour: "\<not> localTimeShown dstHost 1711848600000"
  by (simp add: localTimeShown_def dstHost_LocalTime dstHost_UTC)

lemma dstHost_registration:
  "setDate dstHost 1710504000000 (getDate dstHost 1710504000000 + 30) = 1713092400000"
  "1713092400000 - 1710504000000 = 30 * msPerDay - msPerHour"
  "calendarDate dstHost 1710504000000 = (2024, 2, 15)"
  "calendarDate dstHost 1713092400000 = (2024, 3, 14)"
proof -
  show "setDate dstHost 1710504000000 (getDate dstHost 1710504000000 + 30) = 1713092400000"
    by (simp add: setDate_getDate dstHost_LocalTime dstHost_UTC msPerDay_def)
  show "1713092400000 - 1710504000000 = 30 * msPerDay - msPerHour"
    by (simp add: msPerDay_def msPerHour_def)
  show "calendarDate dstHost 1710504000000 = (2024, 2, 15)"
    unfolding calendarDate_def dstHost_LocalTime by code_simp
  show "calendarDate dstHost 1713092400000 = (2024, 3, 14)"
    unfolding calendarDate_def dstHost_LocalTime by code_simp
qed

section \<open>The examples\<close>

text \<open>Facts about the example host and storage, evaluated once.\<close>

lemma exampleStorage_members: "getMembers exampleStorage = [asha, ravi]"
  by (simp add: getMembers_def exampleStorage_def)

lemma exampleStorage_attendance: "getAttendance exampleStorage = []"
  by (simp add: getAttendance_def exampleStorage_def)

lemma example_ids: "member_id asha = Some ''1001''" "member_id ravi = Some ''1002''"
  by (simp_all add: asha_def ravi_def)

lemma example_calendarDates:
  "calendarDate (fixedOffsetHost 19800000) 1706760000000 = (2024, 1, 1)"
  "calendarDate (fixedOffsetHost 19800000) 1706756400000 = (2024, 1, 1)"
  "calendarDate (fixedOffsetHost 19800000) 1706673600000 = (2024, 0, 31)"
  unfolding calendarDate_def fixedOffsetHost_LocalTime by code_simp+

lemma example_midnights:
  "localMidnight (fixedOffsetHost 19800000) 1706760000000 = 1706725800000"
  "localMidnight (fixedOffsetHost 19800000) 1706846400000 = 1706812200000"
  "localMidnight (fixedOffsetHost 19800000) 1711843200000 = 1711823400000"
  by (simp_all add: fixedOffsetHost_localMidnight Day_def msPerDay_def)

lemma two_cases: "i < length [a, b] \<Longrightarrow> i = 0 \<or> i = Suc 0"
  by auto

lemma exampleStorage_nextId: "fst (generateMemberId exampleStorage) = ''1003''"
  by code_simp

section \<open>Attendance status: getMemberStatus\<close>

text \<open>
  Claim C9. For an absent member \<open>getMemberStatus\<close> returns \<open>not-checked-in\<close>; it does not
  fail, so the status is defined for a member and for no member alike.
\<close>

theorem getMemberStatus_absent: "getMemberStatus h now None = ''not-checked-in''"
  by (simp add: getMemberStatus_def)

theorem getMemberStatus_absent_witness:
  "getMemberStatus (fixedOffsetHost 19800000) 1706760000000 (None :: member option)
     = ''not-checked-in''"
  using getMemberStatus_absent [of "fixedOffsetHost 19800000" 1706760000000] by simp

text \<open>
  Claim C1. For every member record the status is \<open>checked-in\<close> exactly when
  \<open>lastCheckIn\<close> is set and \<open>lastCheckOut\<close> is not; it is \<open>checked-out\<close> exactly when
  \<open>lastCheckOut\<close> is set and its calendar date in local time is today's; and it is
  \<open>not-checked-in\<close> in every other case: the member never checked in, or the last
  check-out was on another day.
\<close>

theorem getMemberStatus_cases:
  "((getMemberStatus h now (Some m) = ''checked-in'') =
      (lastCheckIn m \<noteq> None \<and> lastCheckOut m = None))
   \<and> ((getMemberStatus h now (Some m) = ''checked-out'') =
      (\<exists>t. lastCheckOut m = Some t \<and> calendarDate h t = calendarDate h now))
   \<and> ((getMemberStatus h now (Some m) = ''not-checked-in'') =
      ((lastCheckIn m = None \<and> lastCheckOut m = None)
       \<or> (\<exists>t. lastCheckOut m = Some t \<and> calendarDate h t \<noteq> calendarDate h now)))"
proof (cases "lastCheckOut m")
  case None
  then show ?thesis by (simp add: getMemberStatus_def)
next
  case (Some t)
  then show ?thesis by (simp add: getMemberStatus_def toDateString_eq_iff)
qed

theorem getMemberStatus_cases_witness:
  "getMemberStatus (fixedOffsetHost 19800000) 1706760000000 (Some ravi) = ''checked-in''
   \<and> getMemberStatus (fixedOffsetHost 19800000) 1706760000000
        (Some (ravi\<lparr>lastCheckOut := Some 1706756400000\<rparr>)) = ''checked-out''
   \<and> getMemberStatus (fixedOffsetHost 19800000) 1706760000000
        (Some (ravi\<lparr>lastCheckOut := Some 1706673600000\<rparr>)) = ''not-checked-in''
   \<and> getMemberStatus (fixedOffsetHost 19800000) 1706760000000 (Some asha) = ''not-checked-in''"
  using
    getMemberStatus_cases [of "fixedOffsetHost 19800000" 1706760000000 ravi]
    getMemberStatus_cases [of "fixedOffsetHost 19800000" 1706760000000
      "ravi\<lparr>lastCheckOut := Some 1706756400000\<rparr>"]
    getMemberStatus_cases [of "fixedOffsetHost 19800000" 1706760000000
      "ravi\<lparr>lastCheckOut := Some 1706673600000\<rparr>"]
    getMemberStatus_cases [of "fixedOffsetHost 19800000" 1706760000000 asha]
  by (simp add: ravi_def asha_def example_calendarDates)

section \<open>Days remaining: calculateDaysRemaining\<close>

text \<open>
  Claim C2. The days remaining are 0 for an absent member and for a member without an
  end date; otherwise they are the end date normalized to midnight local time minus
  today normalized to midnight local time, divided by the milliseconds of a day, rounded
  up, and 0 when that is negative. The result is an integer and never negative.
\<close>

theorem calculateDaysRemaining_formula:
  fixes m :: "'a member_scheme" and member :: "'a member_scheme option"
  shows "calculateDaysRemaining h now (None :: 'a member_scheme option) = 0
   \<and> (membershipEndDate m = None \<longrightarrow> calculateDaysRemaining h now (Some m) = 0)
   \<and> (\<forall>e. membershipEndDate m = Some e \<longrightarrow>
        calculateDaysRemaining h now (Some m) =
          max 0 \<lceil>real_of_int (localMidnight h e - localMidnight h now) / real_of_int msPerDay\<rceil>)
   \<and> 0 \<le> calculateDaysRemaining h now member"
proof -
  have "0 \<le> calculateDaysRemaining h now member"
    by (simp add: calculateDaysRemaining_def Let_def split: option.splits)
  then show ?thesis
    by (simp add: calculateDaysRemaining_def Let_def setHours_midnight msPerDay_def)
qed

theorem calculateDaysRemaining_formula_witness:
  "calculateDaysRemaining (fixedOffsetHost 19800000) 1706760000000 (Some asha) = 59
   \<and> calculateDaysRemaining (fixedOffsetHost 19800000) 1706760000000
        (Some (asha\<lparr>membershipEndDate := None\<rparr>)) = 0
   \<and> calculateDaysRemaining (fixedOffsetHost 19800000) 1706760000000 (None :: member option) = 0"
  using
    calculateDaysRemaining_formula [of "fixedOffsetHost 19800000" 1706760000000 asha "Some asha"]
    calculateDaysRemaining_formula [of "fixedOffsetHost 19800000" 1706760000000
      "asha\<lparr>membershipEndDate := None\<rparr>" "Some asha"]
  by (simp add: asha_def example_midnights msPerDay_def)



section \<open>The member store\<close>

lemma find_None_findIndex: "find P xs = None \<Longrightarrow> findIndex P xs = None"
  by (induction xs) (auto split: if_splits)

lemma find_Some_findIndex:
  "find P xs = Some x \<Longrightarrow>
     \<exists>i. findIndex P xs = Some i \<and> i < length xs \<and> xs ! i = x \<and> P x"
proof (induction xs)
  case Nil
  then show ?case by simp
next
  case (Cons y ys)
  show ?case
  proof (cases "P y")
    case True
    with Cons.prems show ?thesis by auto
  next
    case False
    with Cons.prems have "find P ys = Some x" by simp
    then obtain i where "findIndex P ys = Some i" "i < length ys" "ys ! i = x" "P x"
      using Cons.IH by blast
    with False show ?thesis by auto
  qed
qed

lemma findIndex_first: "findIndex P xs = Some i \<Longrightarrow> j < i \<Longrightarrow> \<not> P (xs ! j)"
proof (induction xs arbitrary: i j)
  case Nil
  then show ?case by simp
next
  case (Cons y ys)
  show ?case
  proof (cases "P y")
    case True
    with Cons.prems show ?thesis by simp
  next
    case False
    with Cons.prems obtain k where k: "findIndex P ys = Some k" "i = Suc k"
      by auto
    show ?thesis
    proof (cases j)
      case 0
      with False show ?thesis by simp
    next
      case (Suc l)
      with Cons.prems(2) k have "l < k" by simp
      with Cons.IH [OF k(1)] Suc show ?thesis by simp
    qed
  qed
qed

lemma updateMember_found:
  assumes "findIndex (\<lambda>member. member_id member = Some ident) (getMembers s) = Some i"
    and "i < length (getMembers s)"
  shows "updateMember ident updates s =
    (Some (spread (getMembers s ! i) updates),
     saveMembers ((getMembers s)[i := spread (getMembers s ! i) updates]) s)"
  using assms by (simp add: updateMember_def Let_def)

lemma getMembers_saveMembers: "getMembers (saveMembers members s) = members"
  by (simp add: getMembers_def saveMembers_def)

lemma getAttendance_saveMembers: "getAttendance (saveMembers members s) = getAttendance s"
  by (simp add: getAttendance_def saveMembers_def)

lemma getMembers_saveAttendance: "getMembers (saveAttendance records s) = getMembers s"
  by (simp add: getMembers_def saveAttendance_def)

lemma getAttendance_saveAttendance: "getAttendance (saveAttendance records s) = records"
  by (simp add: getAttendance_def saveAttendance_def)

lemma saveMembers_attendance: "gym_attendance (saveMembers members s) = gym_attendance s"
  by (simp add: saveMembers_def)

lemma saveMembers_counter: "member_id_counter (saveMembers members s) = member_id_counter s"
  by (simp add: saveMembers_def)

lemma filter_keeps_length:
  "(length (filter P xs) = length xs) = (\<forall>x\<in>set xs. P x)"
proof
  assume "length (filter P xs) = length xs"
  then show "\<forall>x\<in>set xs. P x"
    using length_filter_less [of _ xs P] by fastforce
next
  assume "\<forall>x\<in>set xs. P x"
  then show "length (filter P xs) = length xs" by simp
qed

lemma generateMemberId_storage:
  "gym_members (snd (generateMemberId s)) = gym_members s
   \<and> gym_attendance (snd (generateMemberId s)) = gym_attendance s"
  by (simp add: generateMemberId_def Let_def)

lemma addMember_run:
  "addMember now member s =
     (member\<lparr>member_id := Some (fst (generateMemberId s)), registrationDate := Some now,
              lastCheckIn := None, lastCheckOut := None\<rparr>,
      saveMembers (getMembers s @
         [member\<lparr>member_id := Some (fst (generateMemberId s)), registrationDate := Some now,
              lastCheckIn := None, lastCheckOut := None\<rparr>]) (snd (generateMemberId s)))"
  by (simp add: addMember_def Let_def split_beta spread_def)

text \<open>
  Claim C10. Whatever the caller's record holds, the record \<open>addMember\<close> stores and
  returns has the freshly generated id, the registration date \<open>now\<close> and neither a last
  check-in nor a last check-out; every other field is the caller's. The members stored
  before are unchanged and the new record is appended after them.
\<close>

theorem addMember_record:
  "member_id (fst (addMember now member s)) = Some (fst (generateMemberId s))
   \<and> registrationDate (fst (addMember now member s)) = Some now
   \<and> lastCheckIn (fst (addMember now member s)) = None
   \<and> lastCheckOut (fst (addMember now member s)) = None
   \<and> name (fst (addMember now member s)) = name member
   \<and> email (fst (addMember now member s)) = email member
   \<and> phone (fst (addMember now member s)) = phone member
   \<and> membershipType (fst (addMember now member s)) = membershipType member
   \<and> membershipStartDate (fst (addMember now member s)) = membershipStartDate member
   \<and> membershipEndDate (fst (addMember now member s)) = membershipEndDate member
   \<and> photo (fst (addMember now member s)) = photo member
   \<and> member.more (fst (addMember now member s)) = member.more member
   \<and> getMembers (snd (addMember now member s)) = getMembers s @ [fst (addMember now member s)]
   \<and> gym_attendance (snd (addMember now member s)) = gym_attendance s
   \<and> member_id_counter (snd (addMember now member s)) = Some (fst (generateMemberId s))"
proof -
  have "member_id_counter (snd (generateMemberId s)) = Some (fst (generateMemberId s))"
    by (simp add: generateMemberId_def Let_def)
  then show ?thesis
    unfolding addMember_run
    by (simp add: getMembers_saveMembers saveMembers_attendance saveMembers_counter
        generateMemberId_storage)
qed

theorem addMember_record_witness:
  "member_id (fst (addMember 1706760000000 asha exampleStorage)) = Some ''1003''
   \<and> registrationDate (fst (addMember 1706760000000 asha exampleStorage)) = Some 1706760000000
   \<and> name (fst (addMember 1706760000000 asha exampleStorage)) = ''Asha''
   \<and> membershipEndDate (fst (addMember 1706760000000 asha exampleStorage)) = Some 1711843200000
   \<and> getMembers (snd (addMember 1706760000000 asha exampleStorage))
       = [asha, ravi, fst (addMember 1706760000000 asha exampleStorage)]
   \<and> member_id_counter (snd (addMember 1706760000000 asha exampleStorage)) = Some ''1003''"
  using addMember_record [where now = 1706760000000 and member = asha and s = exampleStorage]
  by (simp add: exampleStorage_members exampleStorage_nextId asha_def)

text \<open>
  Claim C8. \<open>deleteMember\<close> of an id that no stored member has returns \<open>false\<close> and leaves
  the storage as it is. For an id that some member has it returns \<open>true\<close> and removes
  every member with exactly that id, keeping the others in their order.
\<close>

theorem deleteMember_result:
  "((\<forall>m\<in>set (getMembers s). member_id m \<noteq> Some ident) \<longrightarrow> deleteMember ident s = (False, s))
   \<and> ((\<exists>m\<in>set (getMembers s). member_id m = Some ident) \<longrightarrow>
        fst (deleteMember ident s) = True
        \<and> getMembers (snd (deleteMember ident s)) =
            filter (\<lambda>m. member_id m \<noteq> Some ident) (getMembers s)
        \<and> (\<forall>m\<in>set (getMembers (snd (deleteMember ident s))). member_id m \<noteq> Some ident)
        \<and> gym_attendance (snd (deleteMember ident s)) = gym_attendance s
        \<and> member_id_counter (snd (deleteMember ident s)) = member_id_counter s)"
proof (intro conjI impI)
  assume "\<forall>m\<in>set (getMembers s). member_id m \<noteq> Some ident"
  then have "length (filter (\<lambda>m. member_id m \<noteq> Some ident) (getMembers s)) = length (getMembers s)"
    by (simp add: filter_keeps_length)
  then show "deleteMember ident s = (False, s)"
    by (simp add: deleteMember_def Let_def)
next
  assume "\<exists>m\<in>set (getMembers s). member_id m = Some ident"
  then have "length (filter (\<lambda>m. member_id m \<noteq> Some ident) (getMembers s)) \<noteq> length (getMembers s)"
    by (simp add: filter_keeps_length)
  then have run: "deleteMember ident s =
      (True, saveMembers (filter (\<lambda>m. member_id m \<noteq> Some ident) (getMembers s)) s)"
    by (simp add: deleteMember_def Let_def)
  show "fst (deleteMember ident s) = True" by (simp add: run)
  show "getMembers (snd (deleteMember ident s)) =
      filter (\<lambda>m. member_id m \<noteq> Some ident) (getMembers s)"
    by (simp add: run getMembers_saveMembers)
  then show "\<forall>m\<in>set (getMembers (snd (deleteMember ident s))). member_id m \<noteq> Some ident"
    by simp
  show "gym_attendance (snd (deleteMember ident s)) = gym_attendance s"
    by (simp add: run saveMembers_def)
  show "member_id_counter (snd (deleteMember ident s)) = member_id_counter s"
    by (simp add: run saveMembers_def)
qed

theorem deleteMember_result_witness:
  "deleteMember ''9999'' exampleStorage = (False, exampleStorage)
   \<and> fst (deleteMember ''1002'' exampleStorage) = True
   \<and> getMembers (snd (deleteMember ''1002'' exampleStorage)) = [asha]"
proof -
  note ms = exampleStorage_members and ids = example_ids
  have a: "\<forall>m\<in>set (getMembers exampleStorage). member_id m \<noteq> Some ''9999''"
    by (simp add: ms ids)
  have b: "\<exists>m\<in>set (getMembers exampleStorage). member_id m = Some ''1002''"
    by (simp add: ms ids)
  have 1: "deleteMember ''9999'' exampleStorage = (False, exampleStorage)"
    using deleteMember_result [where s = exampleStorage and ident = "''9999''"] a by blast
  have 2: "fst (deleteMember ''1002'' exampleStorage) = True"
    and 3: "getMembers (snd (deleteMember ''1002'' exampleStorage)) =
      filter (\<lambda>m. member_id m \<noteq> Some ''1002'') (getMembers exampleStorage)"
    using deleteMember_result [where s = exampleStorage and ident = "''1002''"] b by blast+
  have 4: "filter (\<lambda>m. member_id m \<noteq> Some ''1002'') (getMembers exampleStorage) = [asha]"
    by (simp add: ms ids)
  from 1 2 3 4 show ?thesis by simp
qed

section \<open>Check-in and check-out\<close>

lemma getMemberById_absent:
  assumes "\<forall>m\<in>set (getMembers s). member_id m \<noteq> Some ident"
  shows "getMemberById ident s = None"
  using assms by (simp add: getMemberById_def find_None_iff)

lemma getMemberById_present:
  assumes "\<exists>m\<in>set (getMembers s). member_id m = Some ident"
  shows "\<exists>m i. getMemberById ident s = Some m
    \<and> findIndex (\<lambda>member. member_id member = Some ident) (getMembers s) = Some i
    \<and> i < length (getMembers s) \<and> getMembers s ! i = m \<and> member_id m = Some ident
    \<and> (\<forall>j<i. member_id (getMembers s ! j) \<noteq> Some ident)"
proof -
  let ?P = "\<lambda>member. member_id member = Some ident"
  from assms have "find ?P (getMembers s) \<noteq> None"
    by (auto simp: find_None_iff)
  then obtain m where m: "find ?P (getMembers s) = Some m" by blast
  then obtain i where i: "findIndex ?P (getMembers s) = Some i" "i < length (getMembers s)"
      "getMembers s ! i = m" "member_id m = Some ident"
    using find_Some_findIndex [of ?P "getMembers s" m] by blast
  have "\<forall>j<i. member_id (getMembers s ! j) \<noteq> Some ident"
    using findIndex_first [OF i(1)] by blast
  with m i show ?thesis by (simp add: getMemberById_def)
qed

text \<open>
  Claim C3. \<open>checkIn\<close> of an id that no stored member has returns nothing and leaves the
  members and the attendance records as they are. Otherwise it sets \<open>lastCheckIn\<close> of
  the member with that id (the first one, which \<open>getMemberById\<close> finds) to \<open>now\<close> and
  clears its \<open>lastCheckOut\<close>, appends exactly one attendance record of type \<open>check-in\<close>
  with the timestamp \<open>now\<close>, and returns that record.
\<close>

theorem checkIn_effect:
  "((\<forall>m\<in>set (getMembers s). member_id m \<noteq> Some ident) \<longrightarrow>
       checkIn h now stamp ident s = (None, s))
   \<and> ((\<exists>m\<in>set (getMembers s). member_id m = Some ident) \<longrightarrow>
        (\<exists>m i r s'. getMemberById ident s = Some m
           \<and> checkIn h now stamp ident s = (Some r, s')
           \<and> i < length (getMembers s) \<and> getMembers s ! i = m \<and> member_id m = Some ident
           \<and> (\<forall>j<i. member_id (getMembers s ! j) \<noteq> Some ident)
           \<and> getMembers s' = (getMembers s)[i := m\<lparr>lastCheckIn := Some now, lastCheckOut := None\<rparr>]
           \<and> r = \<lparr>record_id = toString (Num stamp), memberId = ident,
                   record_type = ''check-in'', timestamp = now, date = localeDate h now\<rparr>
           \<and> getAttendance s' = getAttendance s @ [r]
           \<and> member_id_counter s' = member_id_counter s))"
proof (intro conjI impI)
  assume "\<forall>m\<in>set (getMembers s). member_id m \<noteq> Some ident"
  then have "getMemberById ident s = None" by (rule getMemberById_absent)
  then show "checkIn h now stamp ident s = (None, s)"
    by (simp add: checkIn_def)
next
  assume "\<exists>m\<in>set (getMembers s). member_id m = Some ident"
  then obtain m i where found: "getMemberById ident s = Some m"
    and i: "findIndex (\<lambda>member. member_id member = Some ident) (getMembers s) = Some i"
      "i < length (getMembers s)" "getMembers s ! i = m" "member_id m = Some ident"
    and first: "\<forall>j<i. member_id (getMembers s ! j) \<noteq> Some ident"
    using getMemberById_present [of s ident] by blast
  let ?m' = "m\<lparr>lastCheckIn := Some now, lastCheckOut := None\<rparr>"
  let ?r = "\<lparr>record_id = toString (Num stamp), memberId = ident,
             record_type = ''check-in'', timestamp = now, date = localeDate h now\<rparr>"
  let ?s1 = "saveMembers ((getMembers s)[i := ?m']) s"
  let ?s' = "saveAttendance (getAttendance s @ [?r]) ?s1"
  have upd: "updateMember ident [LastCheckIn (Some now), LastCheckOut None] s = (Some ?m', ?s1)"
    using updateMember_found [OF i(1,2)] i(3) by (simp add: spread_def)
  have run: "checkIn h now stamp ident s = (Some ?r, ?s')"
    using found upd by (simp add: checkIn_def Let_def getAttendance_saveMembers)
  have members: "getMembers ?s' = (getMembers s)[i := ?m']"
    by (simp add: getMembers_saveAttendance getMembers_saveMembers)
  have attendance: "getAttendance ?s' = getAttendance s @ [?r]"
    by (simp add: getAttendance_saveAttendance)
  have counter: "member_id_counter ?s' = member_id_counter s"
    by (simp add: saveAttendance_def saveMembers_def)
  from found run i first members attendance counter
  show "\<exists>m i r s'. getMemberById ident s = Some m
           \<and> checkIn h now stamp ident s = (Some r, s')
           \<and> i < length (getMembers s) \<and> getMembers s ! i = m \<and> member_id m = Some ident
           \<and> (\<forall>j<i. member_id (getMembers s ! j) \<noteq> Some ident)
           \<and> getMembers s' = (getMembers s)[i := m\<lparr>lastCheckIn := Some now, lastCheckOut := None\<rparr>]
           \<and> r = \<lparr>record_id = toString (Num stamp), memberId = ident,
                   record_type = ''check-in'', timestamp = now, date = localeDate h now\<rparr>
           \<and> getAttendance s' = getAttendance s @ [r]
           \<and> member_id_counter s' = member_id_counter s"
    by blast
qed

theorem checkIn_effect_witness:
  "checkIn (fixedOffsetHost 19800000) 1706760000000 1706760000003 ''9999'' exampleStorage
     = (None, exampleStorage)
   \<and> (\<exists>r s'. checkIn (fixedOffsetHost 19800000) 1706760000000 1706760000003 ''1001'' exampleStorage
          = (Some r, s')
        \<and> getMembers s' = [asha\<lparr>lastCheckIn := Some 1706760000000, lastCheckOut := None\<rparr>, ravi]
        \<and> getAttendance s' = [r]
        \<and> memberId r = ''1001'' \<and> record_type r = ''check-in'' \<and> timestamp r = 1706760000000)"
proof -
  note ms = exampleStorage_members and ids = example_ids
  have absent: "checkIn (fixedOffsetHost 19800000) 1706760000000 1706760000003 ''9999'' exampleStorage
     = (None, exampleStorage)"
    using checkIn_effect [where s = exampleStorage and ident = "''9999''"
        and h = "fixedOffsetHost 19800000" and now = 1706760000000 and stamp = 1706760000003]
    by (simp add: ms ids)
  have "\<exists>m\<in>set (getMembers exampleStorage). member_id m = Some ''1001''"
    by (simp add: ms ids)
  then obtain m i r s' where
    run: "checkIn (fixedOffsetHost 19800000) 1706760000000 1706760000003 ''1001'' exampleStorage
          = (Some r, s')"
    and i: "i < length (getMembers exampleStorage)" "getMembers exampleStorage ! i = m"
      "member_id m = Some ''1001''"
    and members: "getMembers s' =
      (getMembers exampleStorage)[i := m\<lparr>lastCheckIn := Some 1706760000000, lastCheckOut := None\<rparr>]"
    and r: "r = \<lparr>record_id = toString (Num 1706760000003), memberId = ''1001'',
        record_type = ''check-in'', timestamp = 1706760000000,
        date = localeDate (fixedOffsetHost 19800000) 1706760000000\<rparr>"
    and attendance: "getAttendance s' = getAttendance exampleStorage @ [r]"
    using checkIn_effect [where s = exampleStorage and ident = "''1001''"
        and h = "fixedOffsetHost 19800000" and now = 1706760000000 and stamp = 1706760000003]
    by blast
  from i have "i = 0 \<or> i = Suc 0" unfolding ms by (intro two_cases)
  with i have "i = 0 \<and> m = asha" by (auto simp: ms ids)
  with members have "getMembers s' =
      [asha\<lparr>lastCheckIn := Some 1706760000000, lastCheckOut := None\<rparr>, ravi]"
    by (simp add: ms)
  with absent run r attendance show ?thesis
    by (simp add: exampleStorage_attendance)
qed

text \<open>
  Claim C4. \<open>checkOut\<close> of an id that no stored member has returns nothing and changes
  nothing. Otherwise it sets \<open>lastCheckOut\<close> of the member with that id to \<open>now\<close>, and
  nothing else: \<open>lastCheckIn\<close> and every other field of that member stay, and so does
  every other member. It appends one attendance record of type \<open>check-out\<close> and returns
  it.
\<close>

theorem checkOut_effect:
  "((\<forall>m\<in>set (getMembers s). member_id m \<noteq> Some ident) \<longrightarrow>
       checkOut h now stamp ident s = (None, s))
   \<and> ((\<exists>m\<in>set (getMembers s). member_id m = Some ident) \<longrightarrow>
        (\<exists>m i r s'. getMemberById ident s = Some m
           \<and> checkOut h now stamp ident s = (Some r, s')
           \<and> i < length (getMembers s) \<and> getMembers s ! i = m \<and> member_id m = Some ident
           \<and> (\<forall>j<i. member_id (getMembers s ! j) \<noteq> Some ident)
           \<and> getMembers s' = (getMembers s)[i := m\<lparr>lastCheckOut := Some now\<rparr>]
           \<and> r = \<lparr>record_id = toString (Num stamp), memberId = ident,
                   record_type = ''check-out'', timestamp = now, date = localeDate h now\<rparr>
           \<and> getAttendance s' = getAttendance s @ [r]
           \<and> member_id_counter s' = member_id_counter s))"
proof (intro conjI impI)
  assume "\<forall>m\<in>set (getMembers s). member_id m \<noteq> Some ident"
  then have "getMemberById ident s = None" by (rule getMemberById_absent)
  then show "checkOut h now stamp ident s = (None, s)"
    by (simp add: checkOut_def)
next
  assume "\<exists>m\<in>set (getMembers s). member_id m = Some ident"
  then obtain m i where found: "getMemberById ident s = Some m"
    and i: "findIndex (\<lambda>member. member_id member = Some ident) (getMembers s) = Some i"
      "i < length (getMembers s)" "getMembers s ! i = m" "member_id m = Some ident"
    and first: "\<forall>j<i. member_id (getMembers s ! j) \<noteq> Some ident"
    using getMemberById_present [of s ident] by blast
  let ?m' = "m\<lparr>lastCheckOut := Some now\<rparr>"
  let ?r = "\<lparr>record_id = toString (Num stamp), memberId = ident,
             record_type = ''check-out'', timestamp = now, date = localeDate h now\<rparr>"
  let ?s1 = "saveMembers ((getMembers s)[i := ?m']) s"
  let ?s' = "saveAttendance (getAttendance s @ [?r]) ?s1"
  have upd: "updateMember ident [LastCheckOut (Some now)] s = (Some ?m', ?s1)"
    using updateMember_found [OF i(1,2)] i(3) by (simp add: spread_def)
  have run: "checkOut h now stamp ident s = (Some ?r, ?s')"
    using found upd by (simp add: checkOut_def Let_def getAttendance_saveMembers)
  have members: "getMembers ?s' = (getMembers s)[i := ?m']"
    by (simp add: getMembers_saveAttendance getMembers_saveMembers)
  have attendance: "getAttendance ?s' = getAttendance s @ [?r]"
    by (simp add: getAttendance_saveAttendance)
  have counter: "member_id_counter ?s' = member_id_counter s"
    by (simp add: saveAttendance_def saveMembers_def)
  from found run i first members attendance counter
  show "\<exists>m i r s'. getMemberById ident s = Some m
           \<and> checkOut h now stamp ident s = (Some r, s')
           \<and> i < length (getMembers s) \<and> getMembers s ! i = m \<and> member_id m = Some ident
           \<and> (\<forall>j<i. member_id (getMembers s ! j) \<noteq> Some ident)
           \<and> getMembers s' = (getMembers s)[i := m\<lparr>lastCheckOut := Some now\<rparr>]
           \<and> r = \<lparr>record_id = toString (Num stamp), memberId = ident,
                   record_type = ''check-out'', timestamp = now, date = localeDate h now\<rparr>
           \<and> getAttendance s' = getAttendance s @ [r]
           \<and> member_id_counter s' = member_id_counter s"
    by blast
qed

theorem checkOut_effect_witness:
  "checkOut (fixedOffsetHost 19800000) 1706760000000 1706760000003 ''9999'' exampleStorage
     = (None, exampleStorage)
   \<and> (\<exists>r s'. checkOut (fixedOffsetHost 19800000) 1706760000000 1706760000003 ''1002'' exampleStorage
          = (Some r, s')
        \<and> getMembers s' = [asha, ravi\<lparr>lastCheckOut := Some 1706760000000\<rparr>]
        \<and> getAttendance s' = [r]
        \<and> memberId r = ''1002'' \<and> record_type r = ''check-out'' \<and> timestamp r = 1706760000000)"
proof -
  note ms = exampleStorage_members and ids = example_ids
  have absent: "checkOut (fixedOffsetHost 19800000) 1706760000000 1706760000003 ''9999'' exampleStorage
     = (None, exampleStorage)"
    using checkOut_effect [where s = exampleStorage and ident = "''9999''"
        and h = "fixedOffsetHost 19800000" and now = 1706760000000 and stamp = 1706760000003]
    by (simp add: ms ids)
  have "\<exists>m\<in>set (getMembers exampleStorage). member_id m = Some ''1002''"
    by (simp add: ms ids)
  then obtain m i r s' where
    run: "checkOut (fixedOffsetHost 19800000) 1706760000000 1706760000003 ''1002'' exampleStorage
          = (Some r, s')"
    and i: "i < length (getMembers exampleStorage)" "getMembers exampleStorage ! i = m"
      "member_id m = Some ''1002''"
    and members: "getMembers s' =
      (getMembers exampleStorage)[i := m\<lparr>lastCheckOut := Some 1706760000000\<rparr>]"
    and r: "r = \<lparr>record_id = toString (Num 1706760000003), memberId = ''1002'',
        record_type = ''check-out'', timestamp = 1706760000000,
        date = localeDate (fixedOffsetHost 19800000) 1706760000000\<rparr>"
    and attendance: "getAttendance s' = getAttendance exampleStorage @ [r]"
    using checkOut_effect [where s = exampleStorage and ident = "''1002''"
        and h = "fixedOffsetHost 19800000" and now = 1706760000000 and stamp = 1706760000003]
    by blast
  from i have "i = 0 \<or> i = Suc 0" unfolding ms by (intro two_cases)
  with i have "i = Suc 0 \<and> m = ravi" by (auto simp: ms ids)
  with members have "getMembers s' = [asha, ravi\<lparr>lastCheckOut := Some 1706760000000\<rparr>]"
    by (simp add: ms)
  with absent run r attendance show ?thesis
    by (simp add: exampleStorage_attendance)
qed

section \<open>Registration: the membership end date\<close>









end
